theory Spec2Isabelle
  imports Main "HOL-Library.Sublist"
begin

section \<open>JSON values and the Python operations the server applies to them\<close>

text \<open>
  The request body, the request id and the parameters are whatever the JSON parser
  hands to the handler. A JSON object is the dict the parser built, kept as the list
  of its members in order, each key once; a member is looked up with \<open>map_of\<close>. JSON numbers are modelled in their integer form
  (Python \<open>int\<close>, unbounded); Python's floating point arithmetic is outside this
  development. Python's \<open>None\<close> is \<open>JNull\<close>.
\<close>

datatype json =
    JNull
  | JBool bool
  | JInt int
  | JStr string
  | JArr "json list"
  | JObj "(string \<times> json) list"

datatype py_error = TypeError | KeyError | AttributeError

text \<open>Truth value testing, as \<open>not data\<close> applies it.\<close>

fun py_falsy :: "json \<Rightarrow> bool" where
  "py_falsy JNull = True"
| "py_falsy (JBool b) = (\<not> b)"
| "py_falsy (JInt n) = (n = 0)"
| "py_falsy (JStr s) = (s = [])"
| "py_falsy (JArr xs) = (xs = [])"
| "py_falsy (JObj kvs) = (kvs = [])"

text \<open>\<open>p in s\<close> on two strings: \<open>p\<close> occurs in \<open>s\<close> as a contiguous substring.\<close>

fun py_substr :: "string \<Rightarrow> string \<Rightarrow> bool" where
  "py_substr p [] = (p = [])"
| "py_substr p (c # cs) = (prefix p (c # cs) \<or> py_substr p cs)"

text \<open>
  \<open>k in x\<close> for a string \<open>k\<close>: a key test on a dict, an element test on a list,
  a substring test on a string, and a \<open>TypeError\<close> on \<open>None\<close>, a bool or a number.
\<close>

fun py_contains :: "string \<Rightarrow> json \<Rightarrow> py_error + bool" where
  "py_contains k (JObj kvs) = Inr (k \<in> set (map fst kvs))"
| "py_contains k (JArr xs) = Inr (JStr k \<in> set xs)"
| "py_contains k (JStr s) = Inr (py_substr k s)"
| "py_contains k JNull = Inl TypeError"
| "py_contains k (JBool b) = Inl TypeError"
| "py_contains k (JInt n) = Inl TypeError"

text \<open>\<open>x[k]\<close> for a string \<open>k\<close>: only a dict can be indexed by a string.\<close>

fun py_getitem :: "json \<Rightarrow> string \<Rightarrow> py_error + json" where
  "py_getitem (JObj kvs) k = (case map_of kvs k of None \<Rightarrow> Inl KeyError | Some v \<Rightarrow> Inr v)"
| "py_getitem (JArr xs) k = Inl TypeError"
| "py_getitem (JStr s) k = Inl TypeError"
| "py_getitem JNull k = Inl TypeError"
| "py_getitem (JBool b) k = Inl TypeError"
| "py_getitem (JInt n) k = Inl TypeError"

text \<open>
  \<open>x + y\<close>: integer addition on numbers (a bool counts as 0 or 1), concatenation on two
  strings and on two lists, a \<open>TypeError\<close> on anything else.
\<close>

fun py_int :: "json \<Rightarrow> int option" where
  "py_int (JInt n) = Some n"
| "py_int (JBool b) = Some (if b then 1 else 0)"
| "py_int JNull = None"
| "py_int (JStr s) = None"
| "py_int (JArr xs) = None"
| "py_int (JObj kvs) = None"

definition py_add :: "json \<Rightarrow> json \<Rightarrow> py_error + json" where
  "py_add x y =
     (case (py_int x, py_int y) of
        (Some m, Some n) \<Rightarrow> Inr (JInt (m + n))
      | _ \<Rightarrow>
        (case (x, y) of
           (JStr s, JStr t) \<Rightarrow> Inr (JStr (s @ t))
         | (JArr xs, JArr ys) \<Rightarrow> Inr (JArr (xs @ ys))
         | _ \<Rightarrow> Inl TypeError))"

section \<open>The two registries\<close>

text \<open>
  \<open>pending_requests\<close> maps a generated request id to the client id taken from the
  header (the value of \<open>request.headers.get\<close>, so possibly \<open>None\<close>);
  \<open>subscriptions\<close> maps a client id to its list of pending events. An event is the
  pair of its kind and its payload.
\<close>

type_synonym event = "string \<times> json"

record state =
  pending_requests :: "string \<rightharpoonup> string option"
  subscriptions :: "string \<rightharpoonup> event list"

text \<open>\<open>init_subscriptions\<close>, run once when the module is loaded.\<close>

definition init_subscriptions :: "state \<Rightarrow> state" where
  "init_subscriptions st = st\<lparr>subscriptions := Map.empty\<rparr>"

text \<open>
  \<open>notify_client\<close>: under the lock, append the event to the client's list when the
  client id is a key of \<open>subscriptions\<close>, and do nothing otherwise.
\<close>

definition notify_client :: "string option \<Rightarrow> string \<Rightarrow> json \<Rightarrow> state \<Rightarrow> state" where
  "notify_client client_id event_type data st =
     (case client_id of
        None \<Rightarrow> st
      | Some c \<Rightarrow>
        (case subscriptions st c of
           None \<Rightarrow> st
         | Some q \<Rightarrow> st\<lparr>subscriptions := (subscriptions st)(c \<mapsto> q @ [(event_type, data)])\<rparr>))"

section \<open>The JSON-RPC endpoint\<close>

record response =
  status :: nat
  body :: json

text \<open>The arguments handed to the background thread: request id, params, client id.\<close>

type_synonym job = "string \<times> json \<times> string option"

definition error_response :: "nat \<Rightarrow> int \<Rightarrow> string \<Rightarrow> json \<Rightarrow> response" where
  "error_response st_code code message req_id =
     \<lparr>status = st_code,
      body = JObj [(''jsonrpc'', JStr ''2.0''),
                   (''error'', JObj [(''code'', JInt code), (''message'', JStr message)]),
                   (''id'', req_id)]\<rparr>"

definition discover_result :: json where
  "discover_result =
     JObj [(''methods'', JArr
       [JObj [(''name'', JStr ''mcp_discover''),
              (''description'', JStr ''List available methods''),
              (''parameters'', JArr [])],
        JObj [(''name'', JStr ''add''),
              (''description'', JStr ''Add two numbers''),
              (''parameters'', JArr
                 [JObj [(''name'', JStr ''a''), (''type'', JStr ''number'')],
                  JObj [(''name'', JStr ''b''), (''type'', JStr ''number'')]])]])]"

definition success_response :: "json \<Rightarrow> json \<Rightarrow> response" where
  "success_response req_id res =
     \<lparr>status = 200,
      body = JObj [(''jsonrpc'', JStr ''2.0''), (''id'', req_id), (''result'', res)]\<rparr>"

text \<open>
  The outcome of one call of the handler: the response it returns or the exception it
  raises, the registries afterwards, and the thread it started, if any.
\<close>

type_synonym outcome = "(py_error + response) \<times> state \<times> job option"

definition reply :: "response \<Rightarrow> state \<Rightarrow> outcome" where
  "reply r st = (Inr r, st, None)"

definition raise :: "py_error \<Rightarrow> state \<Rightarrow> outcome" where
  "raise e st = (Inl e, st, None)"

text \<open>
  The branch for \<open>add\<close> (lines 110 to 138). \<open>uuid\<close> is the string that
  \<open>str(uuid.uuid4())\<close> returns in this call.
\<close>

definition handle_add ::
  "(string \<times> json) list \<Rightarrow> json \<Rightarrow> string option \<Rightarrow> string \<Rightarrow> state \<Rightarrow> outcome" where
  "handle_add kvs req_id client_id uuid st =
     (let params = (case map_of kvs ''params'' of None \<Rightarrow> JObj [] | Some v \<Rightarrow> v) in
      case py_contains ''a'' params of
        Inl e \<Rightarrow> raise e st
      | Inr False \<Rightarrow> reply (error_response 400 (- 32602) ''Invalid parameters'' req_id) st
      | Inr True \<Rightarrow>
        (case py_contains ''b'' params of
           Inl e \<Rightarrow> raise e st
         | Inr False \<Rightarrow> reply (error_response 400 (- 32602) ''Invalid parameters'' req_id) st
         | Inr True \<Rightarrow>
           (Inr (success_response req_id
                   (JObj [(''status'', JStr ''pending''), (''requestId'', JStr uuid)])),
            st\<lparr>pending_requests := (pending_requests st)(uuid \<mapsto> client_id)\<rparr>,
            Some (uuid, params, client_id))))"

text \<open>
  The part of the handler after the envelope check (lines 72 to 145), where \<open>data\<close> is
  a dict with members \<open>kvs\<close>.
\<close>

definition dispatch ::
  "(string \<times> json) list \<Rightarrow> string option \<Rightarrow> string \<Rightarrow> state \<Rightarrow> outcome" where
  "dispatch kvs client_id uuid st =
     (let method = (case map_of kvs ''method'' of None \<Rightarrow> JNull | Some v \<Rightarrow> v);
          req_id = (case map_of kvs ''id'' of None \<Rightarrow> JNull | Some v \<Rightarrow> v) in
      if method \<noteq> JStr ''mcp_discover'' \<and> (client_id = None \<or> client_id = Some [])
      then reply (error_response 400 (- 32600) ''Missing X-Client-ID header'' req_id) st
      else if method = JStr ''mcp_discover''
      then reply (success_response req_id discover_result) st
      else if method = JStr ''add''
      then handle_add kvs req_id client_id uuid st
      else reply (error_response 404 (- 32601) ''Method not found'' req_id) st)"

text \<open>
  \<open>jsonrpc_endpoint\<close>: \<open>data\<close> is \<open>request.json\<close>, \<open>client_id\<close> the value of the
  \<open>X-Client-ID\<close> header (\<open>None\<close> when absent). The three tests of line 65 are
  evaluated left to right and stop at the first that holds; a test that raises ends
  the call.
\<close>

definition jsonrpc_endpoint :: "json \<Rightarrow> string option \<Rightarrow> string \<Rightarrow> state \<Rightarrow> outcome" where
  "jsonrpc_endpoint data client_id uuid st =
     (if py_falsy data
      then reply (error_response 400 (- 32600) ''Invalid Request'' JNull) st
      else
        (case py_contains ''jsonrpc'' data of
           Inl e \<Rightarrow> raise e st
         | Inr False \<Rightarrow> reply (error_response 400 (- 32600) ''Invalid Request'' JNull) st
         | Inr True \<Rightarrow>
           (case py_getitem data ''jsonrpc'' of
              Inl e \<Rightarrow> raise e st
            | Inr v \<Rightarrow>
              if v \<noteq> JStr ''2.0''
              then reply (error_response 400 (- 32600) ''Invalid Request'' JNull) st
              else
                (case data of
                   JObj kvs \<Rightarrow> dispatch kvs client_id uuid st
                 | _ \<Rightarrow> raise AttributeError st))))"

section \<open>The background job\<close>

text \<open>Lines 56 to 58: under the lock, delete the request id if it is a key.\<close>

definition forget_request :: "string \<Rightarrow> state \<Rightarrow> state" where
  "forget_request request_id st =
     (if pending_requests st request_id \<noteq> None
      then st\<lparr>pending_requests := (pending_requests st)(request_id := None)\<rparr>
      else st)"

text \<open>
  \<open>process_add\<close>, after its two seconds of sleep: the sum, the notification, the
  cleanup. An exception in the sum ends the thread with the registries untouched.
\<close>

definition process_add :: "string \<Rightarrow> json \<Rightarrow> string option \<Rightarrow> state \<Rightarrow> py_error + state" where
  "process_add request_id params client_id st =
     (case py_getitem params ''a'' of
        Inl e \<Rightarrow> Inl e
      | Inr a \<Rightarrow>
        (case py_getitem params ''b'' of
           Inl e \<Rightarrow> Inl e
         | Inr b \<Rightarrow>
           (case py_add a b of
              Inl e \<Rightarrow> Inl e
            | Inr result \<Rightarrow>
              Inr (forget_request request_id
                     (notify_client client_id ''result''
                        (JObj [(''jsonrpc'', JStr ''2.0''),
                               (''id'', JStr request_id),
                               (''result'', result)])
                        st)))))"

text \<open>
  \<open>threading.Thread(target=process_add, args=(request_id, params, client_id))\<close>,
  started and run to its end.
\<close>

definition run_thread :: "job \<Rightarrow> state \<Rightarrow> py_error + state" where
  "run_thread j st =
     (case j of (request_id, params, client_id) \<Rightarrow> process_add request_id params client_id st)"

section \<open>The event stream\<close>

text \<open>
  The local variable \<open>queue\<close> of \<open>generate_sse\<close> is a reference to a list: either
  the very list stored in \<open>subscriptions\<close> under the client id, which
  \<open>notify_client\<close> appends to, or the fresh empty list that \<open>get\<close> returned as its
  default, which nobody else holds.
\<close>

datatype queue_ref = Shared string | Private "event list"

text \<open>Lines 18 and 19: \<open>queue = subscriptions.get(client_id, [])\<close>, under the lock.\<close>

definition sse_connect :: "string \<Rightarrow> state \<Rightarrow> queue_ref" where
  "sse_connect client_id st =
     (case subscriptions st client_id of
        None \<Rightarrow> Private []
      | Some q \<Rightarrow> Shared client_id)"

text \<open>
  One turn of the loop (lines 21 to 25): pop and yield the first event of the list if
  there is one, sleep otherwise. The yielded text frames the kind and the serialised
  payload of the event; the model yields the event itself.
\<close>

fun sse_step :: "queue_ref \<Rightarrow> state \<Rightarrow> event option \<times> queue_ref \<times> state" where
  "sse_step (Private []) st = (None, Private [], st)"
| "sse_step (Private (e # q)) st = (Some e, Private q, st)"
| "sse_step (Shared c) st =
     (case subscriptions st c of
        Some (e # q) \<Rightarrow> (Some e, Shared c, st\<lparr>subscriptions := (subscriptions st)(c \<mapsto> q)\<rparr>)
      | _ \<Rightarrow> (None, Shared c, st))"

text \<open>
  The loop never ends by itself; \<open>generate_sse\<close> runs it for a given number of
  turns and returns what was yielded.
\<close>

fun sse_loop :: "nat \<Rightarrow> queue_ref \<Rightarrow> state \<Rightarrow> event list \<times> queue_ref \<times> state" where
  "sse_loop 0 queue st = ([], queue, st)"
| "sse_loop (Suc n) queue st =
     (case sse_step queue st of
        (ev, queue', st') \<Rightarrow>
          (case sse_loop n queue' st' of
             (evs, queue'', st'') \<Rightarrow>
               ((case ev of None \<Rightarrow> [] | Some e \<Rightarrow> [e]) @ evs, queue'', st'')))"

definition generate_sse :: "nat \<Rightarrow> string \<Rightarrow> state \<Rightarrow> event list \<times> queue_ref \<times> state" where
  "generate_sse n client_id st = sse_loop n (sse_connect client_id st) st"

section \<open>Threads running side by side\<close>

text \<open>
  Event streams and notifications interleave. A schedule is the list of their atomic
  steps in the order they happen: a stream numbered \<open>g\<close> opens for a client, a
  notification is sent to a client, the stream \<open>g\<close> makes one turn of its loop.
  \<open>delivered\<close> records every yielded event with the client id of its stream.
  A turn of a loop is taken as one step: the test of the list and the pop are not
  separated by a step of another thread.
\<close>

datatype action = Connect nat string | Notify string string json | Poll nat

record system =
  registries :: state
  streams :: "nat \<rightharpoonup> string \<times> queue_ref"
  delivered :: "(string \<times> event) list"

fun sys_step :: "action \<Rightarrow> system \<Rightarrow> system" where
  "sys_step (Connect g c) s =
     s\<lparr>streams := (streams s)(g \<mapsto> (c, sse_connect c (registries s)))\<rparr>"
| "sys_step (Notify c k d) s =
     s\<lparr>registries := notify_client (Some c) k d (registries s)\<rparr>"
| "sys_step (Poll g) s =
     (case streams s g of
        None \<Rightarrow> s
      | Some (c, queue) \<Rightarrow>
        (case sse_step queue (registries s) of
           (ev, queue', st') \<Rightarrow>
             s\<lparr>registries := st',
               streams := (streams s)(g \<mapsto> (c, queue')),
               delivered := delivered s @ (case ev of None \<Rightarrow> [] | Some e \<Rightarrow> [(c, e)])\<rparr>))"

fun sys_run :: "action list \<Rightarrow> system \<Rightarrow> system" where
  "sys_run [] s = s"
| "sys_run (a # as) s = sys_run as (sys_step a s)"

definition boot :: "state \<Rightarrow> system" where
  "boot st = \<lparr>registries = st, streams = Map.empty, delivered = []\<rparr>"




section \<open>A worked request\<close>

definition ex_params :: json where
  "ex_params = JObj [(''a'', JInt 2), (''b'', JInt 3)]"

definition ex_request :: json where
  "ex_request =
     JObj [(''jsonrpc'', JStr ''2.0''), (''method'', JStr ''add''), (''id'', JInt 1),
           (''params'', ex_params)]"

definition ex_uuid :: string where
  "ex_uuid = ''6f1c2a9e-3b7d-4e58-9c01-5a2b7d8e9f10''"

text \<open>The registries right after the module is loaded.\<close>

definition ex_fresh :: state where
  "ex_fresh = init_subscriptions \<lparr>pending_requests = Map.empty, subscriptions = Map.empty\<rparr>"

text \<open>Registries in which client \<open>abc\<close> has an empty list of events.\<close>

definition ex_subscribed :: state where
  "ex_subscribed = \<lparr>pending_requests = Map.empty, subscriptions = [''abc'' \<mapsto> []]\<rparr>"

text \<open>The acknowledgment, the registries after the handler, and after the thread.\<close>

definition ex_ack :: response where
  "ex_ack =
     success_response (JInt 1) (JObj [(''status'', JStr ''pending''), (''requestId'', JStr ex_uuid)])"

definition ex_accepted :: state where
  "ex_accepted =
     \<lparr>pending_requests = [ex_uuid \<mapsto> Some ''abc''], subscriptions = [''abc'' \<mapsto> []]\<rparr>"

definition ex_event :: event where
  "ex_event =
     (''result'', JObj [(''jsonrpc'', JStr ''2.0''), (''id'', JStr ex_uuid), (''result'', JInt 5)])"

definition ex_done :: state where
  "ex_done = \<lparr>pending_requests = Map.empty, subscriptions = [''abc'' \<mapsto> [ex_event]]\<rparr>"




text \<open>A client opens its stream on a fresh server, is notified, and the stream turns.\<close>

definition ex_first_contact :: "action list" where
  "ex_first_contact = [Connect 0 ''abc'', Notify ''abc'' ''result'' (snd ex_event), Poll 0]"




definition ex_untyped :: "(string \<times> json) list" where
  "ex_untyped =
     [(''jsonrpc'', JStr ''2.0''), (''method'', JStr ''add''), (''id'', JStr ''q''),
      (''params'', JObj [(''a'', JNull), (''b'', JObj [(''x'', JBool True)])])]"

section \<open>The streams of a schedule\<close>


section \<open>Basic facts\<close>

lemma has_key_iff: "(k \<in> fst ` set kvs) = (map_of kvs k \<noteq> None)"
  using map_of_eq_None_iff [of kvs k] by auto

lemma envelope_ok:
  assumes "map_of kvs ''jsonrpc'' = Some (JStr ''2.0'')"
  shows "jsonrpc_endpoint (JObj kvs) client_id uuid st = dispatch kvs client_id uuid st"
proof -
  from assms have ne: "kvs \<noteq> []" by auto
  from assms have key: "''jsonrpc'' \<in> fst ` set kvs" by (simp add: has_key_iff)
  show ?thesis using assms ne key by (simp add: jsonrpc_endpoint_def)
qed


lemma accepted_add:
  assumes "map_of kvs ''jsonrpc'' = Some (JStr ''2.0'')"
    and "map_of kvs ''method'' = Some (JStr ''add'')"
    and "map_of kvs ''params'' = Some (JObj ps)"
    and "map_of ps ''a'' \<noteq> None" and "map_of ps ''b'' \<noteq> None"
    and "c \<noteq> []"
  shows "jsonrpc_endpoint (JObj kvs) (Some c) uuid st =
          (Inr (success_response (case map_of kvs ''id'' of None \<Rightarrow> JNull | Some v \<Rightarrow> v)
                  (JObj [(''status'', JStr ''pending''), (''requestId'', JStr uuid)])),
           st\<lparr>pending_requests := (pending_requests st)(uuid \<mapsto> Some c)\<rparr>,
           Some (uuid, JObj ps, Some c))"
  using assms
  by (simp add: envelope_ok dispatch_def handle_add_def has_key_iff)


lemma subscriptions_forget [simp]: "subscriptions (forget_request rid st) = subscriptions st"
  by (simp add: forget_request_def)

lemma pending_notify [simp]: "pending_requests (notify_client cid k d st) = pending_requests st"
  by (simp add: notify_client_def split: option.splits)

lemma subscriptions_notify_other:
  "cid \<noteq> Some c' \<Longrightarrow> subscriptions (notify_client cid k d st) c' = subscriptions st c'"
  by (auto simp: notify_client_def split: option.splits)

lemma process_add_result:
  assumes "process_add rid params cid st = Inr st'"
  obtains res where "st' = forget_request rid (notify_client cid ''result''
        (JObj [(''jsonrpc'', JStr ''2.0''), (''id'', JStr rid), (''result'', res)]) st)"
  using assms by (auto simp: process_add_def split: sum.splits)

lemma endpoint_job:
  assumes "jsonrpc_endpoint data client_id uuid st = (res, st1, Some j)"
  shows "fst j = uuid \<and> snd (snd j) = client_id \<and> subscriptions st1 = subscriptions st"
  using assms
  by (auto simp: jsonrpc_endpoint_def dispatch_def handle_add_def reply_def raise_def Let_def
      split: if_splits sum.splits bool.splits json.splits)

lemma ex_endpoint:
  "jsonrpc_endpoint ex_request (Some ''abc'') ex_uuid ex_subscribed =
     (Inr ex_ack, ex_accepted, Some (ex_uuid, ex_params, Some ''abc''))"
  by (simp add: ex_request_def ex_params_def ex_subscribed_def ex_ack_def ex_accepted_def
      jsonrpc_endpoint_def dispatch_def handle_add_def)

lemma ex_thread: "run_thread (ex_uuid, ex_params, Some ''abc'') ex_accepted = Inr ex_done"
  by (simp add: run_thread_def process_add_def ex_params_def py_add_def ex_accepted_def
      ex_done_def ex_event_def notify_client_def forget_request_def)







lemma sse_step_private_nil: "sse_step (Private []) st = (None, Private [], st)"
  by simp








lemma dom_notify: "dom (subscriptions (notify_client cid k d st)) = dom (subscriptions st)"
  by (auto simp: notify_client_def split: option.splits)

lemma dom_sse_step:
  "sse_step q st = (ev, q', st') \<Longrightarrow> dom (subscriptions st') = dom (subscriptions st)"
  by (cases "(q, st)" rule: sse_step.cases) (auto split: option.splits list.splits if_splits)

lemma dom_sys_step:
  "dom (subscriptions (registries (sys_step a s))) = dom (subscriptions (registries s))"
proof (cases a)
  case (Poll g)
  show ?thesis
  proof (cases "streams s g")
    case None
    with Poll show ?thesis by simp
  next
    case (Some cq)
    obtain c q where cq: "cq = (c, q)" by (cases cq)
    obtain ev q' st' where st: "sse_step q (registries s) = (ev, q', st')"
      by (cases "sse_step q (registries s)")
    from dom_sse_step [OF st] Poll Some cq st show ?thesis by simp
  qed
qed (simp_all add: dom_notify)

text \<open>
  No step of a schedule, no call of the handler and no thread adds or removes a key of
  \<open>subscriptions\<close>.
\<close>

lemma registry_keys_fixed:
  "dom (subscriptions (registries (sys_run acts s))) = dom (subscriptions (registries s))"
  by (induction acts arbitrary: s) (simp_all add: dom_sys_step)

lemma dom_endpoint:
  "jsonrpc_endpoint data client_id uuid st = (res, st', j) \<Longrightarrow>
     subscriptions st' = subscriptions st"
  by (auto simp: jsonrpc_endpoint_def dispatch_def handle_add_def reply_def raise_def Let_def
      split: if_splits sum.splits bool.splits json.splits)

lemma dom_process_add:
  "process_add rid params cid st = Inr st' \<Longrightarrow>
     dom (subscriptions st') = dom (subscriptions st)"
  by (erule process_add_result) (simp add: dom_notify)

section \<open>Properties of the server\<close>

text \<open>
  C4. Whenever the handler does not answer with status 200, that is when it answers
  with an error response or raises, the two registries are what they were before the
  call and no thread has been started.
\<close>

theorem error_path_has_no_side_effect:
  assumes "jsonrpc_endpoint data client_id uuid st = (res, st', j)"
    and "\<forall>r. res = Inr r \<longrightarrow> status r \<noteq> 200"
  shows "st' = st \<and> j = None"
  using assms
  by (auto simp: jsonrpc_endpoint_def dispatch_def handle_add_def reply_def raise_def
      error_response_def success_response_def Let_def
      split: if_splits sum.splits bool.splits json.splits)

theorem error_path_has_no_side_effect_witness:
  "jsonrpc_endpoint (JObj [(''jsonrpc'', JStr ''2.0''), (''method'', JStr ''add''),
       (''id'', JInt 7), (''params'', JObj [(''a'', JInt 2)])]) (Some ''abc'') ex_uuid ex_subscribed =
     (Inr (error_response 400 (- 32602) ''Invalid parameters'' (JInt 7)), ex_subscribed, None)"
proof -
  let ?data = "JObj [(''jsonrpc'', JStr ''2.0''), (''method'', JStr ''add''),
       (''id'', JInt 7), (''params'', JObj [(''a'', JInt 2)])]"
  obtain res st' j where
    out: "jsonrpc_endpoint ?data (Some ''abc'') ex_uuid ex_subscribed = (res, st', j)"
    by (cases "jsonrpc_endpoint ?data (Some ''abc'') ex_uuid ex_subscribed")
  have res: "res = Inr (error_response 400 (- 32602) ''Invalid parameters'' (JInt 7))"
    using out by (simp add: jsonrpc_endpoint_def dispatch_def handle_add_def reply_def)
  then have "\<forall>r. res = Inr r \<longrightarrow> status r \<noteq> 200"
    by (simp add: error_response_def)
  from error_path_has_no_side_effect [OF out this] res out show ?thesis by simp
qed

text \<open>
  C5. When a request sent with client id \<open>C\<close> starts a thread and the thread runs to
  its end, the event list of every other client is what it was before the request:
  the thread appends to the list of \<open>C\<close> only.
\<close>

theorem result_event_only_for_submitter:
  assumes "jsonrpc_endpoint data (Some C) uuid st = (res, st1, Some j)"
    and "run_thread j st1 = Inr st2"
    and "c' \<noteq> C"
  shows "subscriptions st2 c' = subscriptions st c'"
proof -
  obtain rid params cid where j: "j = (rid, params, cid)" by (cases j)
  from endpoint_job [OF assms(1)] j have cid: "cid = Some C"
    and sub: "subscriptions st1 = subscriptions st" by simp_all
  from assms(2) j have "process_add rid params cid st1 = Inr st2" by (simp add: run_thread_def)
  then obtain r where "st2 = forget_request rid (notify_client cid ''result''
        (JObj [(''jsonrpc'', JStr ''2.0''), (''id'', JStr rid), (''result'', r)]) st1)"
    by (rule process_add_result)
  with cid sub assms(3) show ?thesis by (simp add: subscriptions_notify_other)
qed

theorem result_event_only_for_submitter_witness:
  "subscriptions ex_done ''xyz'' = subscriptions ex_subscribed ''xyz'' \<and>
   subscriptions ex_done ''abc'' = Some [ex_event]"
proof -
  have "''xyz'' \<noteq> ''abc''" by simp
  from result_event_only_for_submitter [OF ex_endpoint ex_thread this]
  show ?thesis by (simp add: ex_done_def)
qed

text \<open>
  C6. A thread that has run to its end leaves no record under its request id and
  leaves every other record alone; deleting a request id that is not recorded changes
  nothing, and so does deleting it a second time.
\<close>

theorem job_record_removed:
  "(process_add rid params cid st = Inr st' \<longrightarrow>
      pending_requests st' rid = None \<and>
      (\<forall>j. j \<noteq> rid \<longrightarrow> pending_requests st' j = pending_requests st j)) \<and>
   (pending_requests st rid = None \<longrightarrow> forget_request rid st = st) \<and>
   forget_request rid (forget_request rid st) = forget_request rid st"
proof (intro conjI impI)
  assume "process_add rid params cid st = Inr st'"
  then obtain res where "st' = forget_request rid (notify_client cid ''result''
        (JObj [(''jsonrpc'', JStr ''2.0''), (''id'', JStr rid), (''result'', res)]) st)"
    by (rule process_add_result)
  then show "pending_requests st' rid = None"
    and "\<forall>j. j \<noteq> rid \<longrightarrow> pending_requests st' j = pending_requests st j"
    by (simp_all add: forget_request_def)
next
  show "pending_requests st rid = None \<Longrightarrow> forget_request rid st = st"
    by (simp add: forget_request_def)
next
  show "forget_request rid (forget_request rid st) = forget_request rid st"
    by (simp add: forget_request_def)
qed

theorem job_record_removed_witness:
  "process_add ex_uuid ex_params (Some ''abc'') ex_accepted = Inr ex_done \<and>
   pending_requests ex_accepted ex_uuid = Some (Some ''abc'') \<and>
   pending_requests ex_done ex_uuid = None \<and>
   forget_request ex_uuid ex_done = ex_done"
proof -
  have run: "process_add ex_uuid ex_params (Some ''abc'') ex_accepted = Inr ex_done"
    using ex_thread by (simp add: run_thread_def)
  have absent: "pending_requests ex_done ex_uuid = None" by (simp add: ex_done_def)
  from job_record_removed [of ex_uuid ex_params "Some ''abc''" ex_accepted ex_done] run
  have "pending_requests ex_done ex_uuid = None" by simp
  moreover from job_record_removed [of ex_uuid ex_params "Some ''abc''" ex_done ex_done] absent
  have "forget_request ex_uuid ex_done = ex_done" by simp
  ultimately show ?thesis using run by (simp add: ex_accepted_def)
qed







text \<open>
  C3, evaluated on a fresh server. Opening the stream for \<open>abc\<close> hands the loop a
  private empty list and leaves \<open>subscriptions\<close> without the key \<open>abc\<close>; a notification
  for \<open>abc\<close> is then dropped, and the stream yields nothing.
\<close>

theorem stream_does_not_register:
  "subscriptions ex_fresh ''abc'' = None \<and>
   sse_connect ''abc'' ex_fresh = Private [] \<and>
   generate_sse 3 ''abc'' ex_fresh = ([], Private [], ex_fresh) \<and>
   notify_client (Some ''abc'') ''result'' (snd ex_event) ex_fresh = ex_fresh \<and>
   registries (sys_run ex_first_contact (boot ex_fresh)) = ex_fresh \<and>
   delivered (sys_run ex_first_contact (boot ex_fresh)) = []"
  by (simp add: ex_fresh_def init_subscriptions_def sse_connect_def generate_sse_def
      notify_client_def ex_first_contact_def boot_def numeral_3_eq_3)







text \<open>
  C10. A request for \<open>add\<close> with a non-empty client id whose params object has the
  members \<open>a\<close> and \<open>b\<close> is acknowledged as pending and its thread is started with those
  params, whatever JSON values the two members hold.
\<close>

theorem add_checks_presence_only:
  assumes "map_of kvs ''jsonrpc'' = Some (JStr ''2.0'')"
    and "map_of kvs ''method'' = Some (JStr ''add'')"
    and "map_of kvs ''params'' = Some (JObj ps)"
    and "map_of ps ''a'' = Some va" and "map_of ps ''b'' = Some vb"
    and "c \<noteq> []"
  shows "fst (jsonrpc_endpoint (JObj kvs) (Some c) uuid st) =
           Inr (success_response (case map_of kvs ''id'' of None \<Rightarrow> JNull | Some v \<Rightarrow> v)
                  (JObj [(''status'', JStr ''pending''), (''requestId'', JStr uuid)])) \<and>
         snd (snd (jsonrpc_endpoint (JObj kvs) (Some c) uuid st)) = Some (uuid, JObj ps, Some c)"
  using assms accepted_add [of kvs ps c uuid st] by simp

theorem add_checks_presence_only_witness:
  "fst (jsonrpc_endpoint (JObj ex_untyped) (Some ''abc'') ex_uuid ex_fresh) =
     Inr (success_response (JStr ''q'')
            (JObj [(''status'', JStr ''pending''), (''requestId'', JStr ex_uuid)])) \<and>
   snd (snd (jsonrpc_endpoint (JObj ex_untyped) (Some ''abc'') ex_uuid ex_fresh)) =
     Some (ex_uuid, JObj [(''a'', JNull), (''b'', JObj [(''x'', JBool True)])], Some ''abc'') \<and>
   process_add ex_uuid (JObj [(''a'', JNull), (''b'', JObj [(''x'', JBool True)])]) (Some ''abc'')
     ex_fresh = Inl TypeError"
proof -
  let ?ps = "[(''a'', JNull), (''b'', JObj [(''x'', JBool True)])]"
  have "map_of ex_untyped ''jsonrpc'' = Some (JStr ''2.0'')"
    and "map_of ex_untyped ''method'' = Some (JStr ''add'')"
    and "map_of ex_untyped ''params'' = Some (JObj ?ps)"
    and "map_of ?ps ''a'' = Some JNull" and "map_of ?ps ''b'' = Some (JObj [(''x'', JBool True)])"
    and "''abc'' \<noteq> []"
    by (simp_all add: ex_untyped_def)
  from add_checks_presence_only [OF this, of ex_uuid ex_fresh]
  have "fst (jsonrpc_endpoint (JObj ex_untyped) (Some ''abc'') ex_uuid ex_fresh) =
     Inr (success_response (case map_of ex_untyped ''id'' of None \<Rightarrow> JNull | Some v \<Rightarrow> v)
            (JObj [(''status'', JStr ''pending''), (''requestId'', JStr ex_uuid)]))"
    and "snd (snd (jsonrpc_endpoint (JObj ex_untyped) (Some ''abc'') ex_uuid ex_fresh)) =
     Some (ex_uuid, JObj ?ps, Some ''abc'')"
    by simp_all
  moreover have "map_of ex_untyped ''id'' = Some (JStr ''q'')" by (simp add: ex_untyped_def)
  moreover have "process_add ex_uuid (JObj ?ps) (Some ''abc'') ex_fresh = Inl TypeError"
    by (simp add: process_add_def py_add_def)
  ultimately show ?thesis by simp
qed

end
